theory Spec2Isabelle
  imports Complex_Main
begin

section \<open>Values carried by requests and responses\<close>

text \<open>
  The handlers of \<^verbatim>\<open>backend/app.py\<close> read a JSON body (\<^verbatim>\<open>request.json\<close>, a Python
  dict), a query parameter (\<^verbatim>\<open>request.args.get('userId')\<close>, a string or None)
  and answer with \<^verbatim>\<open>jsonify(...)\<close>. A JSON value is modelled as it reaches Python:
  None is \<open>JNull\<close>; numbers are exact rationals (the handlers only copy them, no
  arithmetic is done on them); strings are lists of ASCII characters.
\<close>

datatype json =
    JNull
  | JBool bool
  | JNum rat
  | JStr string
  | JArr "json list"
  | JObj "(string \<times> json) list"

type_synonym payload = "string \<rightharpoonup> json"

text \<open>\<^verbatim>\<open>data.get(k)\<close> and \<^verbatim>\<open>data.get(k, default)\<close> on a dict.\<close>

definition dict_get :: "payload \<Rightarrow> string \<Rightarrow> json" where
  "dict_get data k = (case data k of None \<Rightarrow> JNull | Some v \<Rightarrow> v)"

definition dict_get_default :: "payload \<Rightarrow> string \<Rightarrow> json \<Rightarrow> json" where
  "dict_get_default data k dflt = (case data k of None \<Rightarrow> dflt | Some v \<Rightarrow> v)"

text \<open>Reading one member of a JSON object of a response.\<close>

fun member :: "json \<Rightarrow> string \<Rightarrow> json option" where
  "member (JObj kvs) k = map_of kvs k"
| "member _ k = None"

text \<open>
  Exceptions that no handler catches (Flask answers them with a 500), and the responses
  the handlers build: \<^verbatim>\<open>jsonify(body)\<close> is status 200, \<^verbatim>\<open>jsonify(body), n\<close> is
  status \<open>n\<close>.
\<close>

datatype exn = AttributeError | TypeError | ValueError | IntegrityError

datatype response = Response nat json

section \<open>Dates\<close>

text \<open>
  \<^verbatim>\<open>datetime.date\<close>: the constructor accepts years 1 to 9999 and the days of the
  proleptic Gregorian calendar, and raises ValueError otherwise.
\<close>

record date =
  year :: nat
  month :: nat
  day :: nat

definition is_leap :: "nat \<Rightarrow> bool" where
  "is_leap y = (y mod 4 = 0 \<and> (y mod 100 \<noteq> 0 \<or> y mod 400 = 0))"

definition days_in_month :: "nat \<Rightarrow> nat \<Rightarrow> nat" where
  "days_in_month y m =
     (if m = 2 then (if is_leap y then 29 else 28)
      else if m = 4 \<or> m = 6 \<or> m = 9 \<or> m = 11 then 30 else 31)"

definition valid_date :: "date \<Rightarrow> bool" where
  "valid_date d =
     (1 \<le> year d \<and> year d \<le> 9999 \<and> 1 \<le> month d \<and> month d \<le> 12 \<and>
      1 \<le> day d \<and> day d \<le> days_in_month (year d) (month d))"

definition date_new :: "nat \<Rightarrow> nat \<Rightarrow> nat \<Rightarrow> exn + date" where
  "date_new y m d =
     (let r = \<lparr>year = y, month = m, day = d\<rparr>
      in if valid_date r then Inr r else Inl ValueError)"

subsection \<open>Decimal digits\<close>

definition digit_of :: "char \<Rightarrow> nat option" where
  "digit_of c =
     (let n = (of_char c :: nat) in if 48 \<le> n \<and> n \<le> 57 then Some (n - 48) else None)"

definition digit_char :: "nat \<Rightarrow> char" where
  "digit_char n = char_of (48 + n)"

fun decimal :: "nat \<Rightarrow> string" where
  "decimal n = (if n < 10 then [digit_char n] else decimal (n div 10) @ [digit_char (n mod 10)])"

declare decimal.simps [simp del]

text \<open>\<^verbatim>\<open>'%0wd' % n\<close> for a natural number.\<close>

definition zero_pad :: "nat \<Rightarrow> nat \<Rightarrow> string" where
  "zero_pad w n = replicate (w - length (decimal n)) (CHR ''0'') @ decimal n"

text \<open>\<^verbatim>\<open>date.isoformat()\<close>, that is \<^verbatim>\<open>'%04d-%02d-%02d' % (year, month, day)\<close>.\<close>

definition isoformat :: "date \<Rightarrow> string" where
  "isoformat d = zero_pad 4 (year d) @ ''-'' @ zero_pad 2 (month d) @ ''-'' @ zero_pad 2 (day d)"

subsection \<open>\<^verbatim>\<open>datetime.strptime(s, '%Y-%m-%d').date()\<close>\<close>

text \<open>
  CPython turns the format into the regular expression
  \<^verbatim>\<open>(?P<Y>\d\d\d\d)-(?P<m>1[0-2]|0[1-9]|[1-9])-(?P<d>3[0-1]|[1-2]\d|0[1-9]|[1-9]| [1-9])\<close>,
  matches it at the start of the string, raises ValueError when it does not match or
  when text remains after the match, and builds the date from the three groups. Each
  piece below returns its matches in the order the backtracking matcher tries them,
  with the rest of the string; the first complete match is the one Python takes.
\<close>

definition re_lit :: "char \<Rightarrow> string \<Rightarrow> string list" where
  "re_lit c s = (case s of [] \<Rightarrow> [] | a # r \<Rightarrow> if a = c then [r] else [])"

definition re_digit1 :: "nat \<Rightarrow> nat \<Rightarrow> string \<Rightarrow> (nat \<times> string) list" where
  "re_digit1 lo hi s =
     (case s of
        [] \<Rightarrow> []
      | a # r \<Rightarrow>
          (case digit_of a of
             None \<Rightarrow> []
           | Some x \<Rightarrow> if lo \<le> x \<and> x \<le> hi then [(x, r)] else []))"

definition re_digit2 :: "nat \<Rightarrow> nat \<Rightarrow> nat \<Rightarrow> nat \<Rightarrow> string \<Rightarrow> (nat \<times> string) list" where
  "re_digit2 lo1 hi1 lo2 hi2 s =
     [(10 * x + y, r). (x, s1) \<leftarrow> re_digit1 lo1 hi1 s, (y, r) \<leftarrow> re_digit1 lo2 hi2 s1]"

definition re_Y :: "string \<Rightarrow> (nat \<times> string) list" where
  "re_Y s =
     [(100 * hi + lo, r). (hi, s1) \<leftarrow> re_digit2 0 9 0 9 s, (lo, r) \<leftarrow> re_digit2 0 9 0 9 s1]"

definition re_m :: "string \<Rightarrow> (nat \<times> string) list" where
  "re_m s = re_digit2 1 1 0 2 s @ re_digit2 0 0 1 9 s @ re_digit1 1 9 s"

definition re_d :: "string \<Rightarrow> (nat \<times> string) list" where
  "re_d s =
     re_digit2 3 3 0 1 s @ re_digit2 1 2 0 9 s @ re_digit2 0 0 1 9 s @ re_digit1 1 9 s @
     [(x, r). s1 \<leftarrow> re_lit (CHR '' '') s, (x, r) \<leftarrow> re_digit1 1 9 s1]"

definition regex_ymd :: "string \<Rightarrow> (nat \<times> nat \<times> nat \<times> string) list" where
  "regex_ymd s =
     [(y, m, d, r).
        (y, s1) \<leftarrow> re_Y s, s2 \<leftarrow> re_lit (CHR ''-'') s1,
        (m, s3) \<leftarrow> re_m s2, s4 \<leftarrow> re_lit (CHR ''-'') s3,
        (d, r) \<leftarrow> re_d s4]"

definition strptime_ymd :: "string \<Rightarrow> exn + date" where
  "strptime_ymd s =
     (case regex_ymd s of
        [] \<Rightarrow> Inl ValueError
      | (y, m, d, r) # _ \<Rightarrow> if r \<noteq> [] then Inl ValueError else date_new y m d)"

text \<open>\<^verbatim>\<open>s.split('T')[0]\<close>: the text before the first \<open>T\<close>.\<close>

definition split_T_first :: "string \<Rightarrow> string" where
  "split_T_first s = takeWhile (\<lambda>c. c \<noteq> CHR ''T'') s"

section \<open>The persistence schema\<close>

text \<open>
  The three model classes of \<^verbatim>\<open>backend/app.py\<close>. A row keeps, for every column, the
  Python value the handler assigned to the attribute: None is \<open>JNull\<close>, and the
  conversions a database driver applies to a value of another type than the column's are
  outside the repository and are not modelled. The two \<^verbatim>\<open>user_id\<close> columns hold
  what \<^verbatim>\<open>request.args.get('userId')\<close> returned, the date columns a
  \<^verbatim>\<open>datetime.date\<close> or None.
\<close>

record Loan =
  l_id :: json
  l_user_id :: "string option"
  l_name :: json
  l_lender :: json
  l_principal :: json
  l_interest_rate :: json
  l_start_date :: "date option"
  l_emi_amount :: json
  l_tenure_months :: json
  l_initial_paid_months :: json
  l_due_date_day :: json
  l_type :: json
  l_status :: json
  l_is_foreclosed :: json

record Payment =
  p_id :: json
  p_loan_id :: json
  p_date :: "date option"
  p_amount :: json
  p_note :: json

record Transaction =
  t_id :: json
  t_user_id :: "string option"
  t_date :: "date option"
  t_amount :: json
  t_type :: json
  t_category :: json
  t_description :: json

text \<open>
  The store: the rows of the three tables, in some order, and whether the backend
  named by \<^verbatim>\<open>DATABASE_URL\<close> enforces the foreign key of
  \<^verbatim>\<open>payments.loan_id\<close> (the source fixes no backend).
\<close>

record db =
  loans :: "Loan list"
  payments :: "Payment list"
  transactions :: "Transaction list"
  fk_enforced :: bool

text \<open>Primary keys are unique and not null in every table.\<close>

definition pk_ok :: "json list \<Rightarrow> bool" where
  "pk_ok ks = (distinct ks \<and> JNull \<notin> set ks)"

definition db_ok :: "db \<Rightarrow> bool" where
  "db_ok s =
     (pk_ok (map l_id (loans s)) \<and> pk_ok (map p_id (payments s)) \<and>
      pk_ok (map t_id (transactions s)))"

subsection \<open>Serialization\<close>

definition date_json :: "date option \<Rightarrow> json" where
  "date_json d = (case d of None \<Rightarrow> JNull | Some x \<Rightarrow> JStr (isoformat x))"

definition Payment_to_dict :: "Payment \<Rightarrow> json" where
  "Payment_to_dict p =
     JObj [(''id'', p_id p), (''date'', date_json (p_date p)), (''amount'', p_amount p),
           (''note'', p_note p)]"

text \<open>The relationship \<^verbatim>\<open>Loan.payments\<close>: the payments whose \<^verbatim>\<open>loan_id\<close> is the loan's id.\<close>

definition Loan_payments :: "db \<Rightarrow> Loan \<Rightarrow> Payment list" where
  "Loan_payments s l = filter (\<lambda>p. p_loan_id p = l_id l) (payments s)"

definition Loan_to_dict :: "db \<Rightarrow> Loan \<Rightarrow> json" where
  "Loan_to_dict s l =
     JObj [(''id'', l_id l), (''name'', l_name l), (''lender'', l_lender l),
           (''principal'', l_principal l), (''interestRate'', l_interest_rate l),
           (''startDate'', date_json (l_start_date l)), (''emiAmount'', l_emi_amount l),
           (''tenureMonths'', l_tenure_months l),
           (''initialPaidMonths'', l_initial_paid_months l),
           (''dueDateDay'', l_due_date_day l), (''type'', l_type l),
           (''status'', l_status l), (''isForeclosed'', l_is_foreclosed l),
           (''payments'', JArr (map Payment_to_dict (Loan_payments s l)))]"

definition Transaction_to_dict :: "Transaction \<Rightarrow> json" where
  "Transaction_to_dict t =
     JObj [(''id'', t_id t), (''date'', date_json (t_date t)), (''amount'', t_amount t),
           (''type'', t_type t), (''category'', t_category t),
           (''description'', t_description t)]"

subsection \<open>The session operations the handlers call\<close>

text \<open>
  \<^verbatim>\<open>Model.query.get(k)\<close>: the row with primary key \<open>k\<close>, or None; a None key
  loads nothing.
\<close>

definition query_get :: "('r \<Rightarrow> json) \<Rightarrow> 'r list \<Rightarrow> json \<Rightarrow> 'r option" where
  "query_get pk rows k = (if k = JNull then None else find (\<lambda>r. pk r = k) rows)"

text \<open>
  The flush of a new object. The unit of work leaves an attribute that is None out
  of the INSERT, so a column declared with \<^verbatim>\<open>default=\<close> gets its default and the
  others get NULL (SQLAlchemy, \<^emph>\<open>Forcing NULL on a column with a default\<close>). The defaults
  of \<^verbatim>\<open>Loan\<close> are those of lines 25, 34, 37 and 38; \<open>uuid\<close> is what
  \<^verbatim>\<open>str(uuid.uuid4())\<close> returns. A NULL in a \<^verbatim>\<open>nullable=False\<close> column and a
  repeated primary key raise IntegrityError.
\<close>

definition or_default :: "json \<Rightarrow> json \<Rightarrow> json" where
  "or_default v dflt = (if v = JNull then dflt else v)"

definition Loan_defaults :: "string \<Rightarrow> Loan \<Rightarrow> Loan" where
  "Loan_defaults uuid l =
     l\<lparr>l_id := or_default (l_id l) (JStr uuid),
       l_initial_paid_months := or_default (l_initial_paid_months l) (JNum 0),
       l_status := or_default (l_status l) (JStr ''active''),
       l_is_foreclosed := or_default (l_is_foreclosed l) (JBool False)\<rparr>"

definition Loan_not_null :: "Loan \<Rightarrow> bool" where
  "Loan_not_null l = (l_user_id l \<noteq> None \<and> l_name l \<noteq> JNull \<and> l_principal l \<noteq> JNull)"

definition insert_Loan :: "string \<Rightarrow> Loan \<Rightarrow> db \<Rightarrow> exn + Loan \<times> db" where
  "insert_Loan uuid l s =
     (let r = Loan_defaults uuid l
      in if \<not> Loan_not_null r then Inl IntegrityError
         else if l_id r \<in> set (map l_id (loans s)) then Inl IntegrityError
         else Inr (r, s\<lparr>loans := loans s @ [r]\<rparr>))"

text \<open>
  The flush of a loaded loan after the assignments of lines 128 to 139: an UPDATE by
  primary key of the assigned columns, of which \<^verbatim>\<open>name\<close> and \<^verbatim>\<open>principal\<close> are
  \<^verbatim>\<open>nullable=False\<close>.
\<close>

definition update_Loan :: "Loan \<Rightarrow> db \<Rightarrow> exn + Loan \<times> db" where
  "update_Loan l s =
     (if l_name l = JNull \<or> l_principal l = JNull then Inl IntegrityError
      else Inr (l, s\<lparr>loans := map (\<lambda>r. if l_id r = l_id l then l else r) (loans s)\<rparr>))"

definition Payment_not_null :: "Payment \<Rightarrow> bool" where
  "Payment_not_null p = (p_loan_id p \<noteq> JNull \<and> p_date p \<noteq> None \<and> p_amount p \<noteq> JNull)"

definition insert_Payment :: "string \<Rightarrow> Payment \<Rightarrow> db \<Rightarrow> exn + Payment \<times> db" where
  "insert_Payment uuid p s =
     (let r = p\<lparr>p_id := or_default (p_id p) (JStr uuid)\<rparr>
      in if \<not> Payment_not_null r then Inl IntegrityError
         else if p_id r \<in> set (map p_id (payments s)) then Inl IntegrityError
         else if fk_enforced s \<and> p_loan_id r \<notin> set (map l_id (loans s)) then Inl IntegrityError
         else Inr (r, s\<lparr>payments := payments s @ [r]\<rparr>))"

definition Transaction_not_null :: "Transaction \<Rightarrow> bool" where
  "Transaction_not_null t =
     (t_user_id t \<noteq> None \<and> t_date t \<noteq> None \<and> t_amount t \<noteq> JNull \<and> t_type t \<noteq> JNull)"

text \<open>
  \<^verbatim>\<open>db.session.merge(tx)\<close> followed by the flush: the row with the primary key of
  \<open>tx\<close> takes every attribute of \<open>tx\<close> when there is one, and a new row is inserted
  otherwise (with a generated id when \<open>tx\<close> has none).
\<close>

definition session_merge :: "string \<Rightarrow> Transaction \<Rightarrow> db \<Rightarrow> exn + db" where
  "session_merge uuid tx s =
     (case query_get t_id (transactions s) (t_id tx) of
        Some old \<Rightarrow>
          if \<not> Transaction_not_null tx then Inl IntegrityError
          else Inr (s\<lparr>transactions :=
                 map (\<lambda>r. if t_id r = t_id tx then tx else r) (transactions s)\<rparr>)
      | None \<Rightarrow>
          (let r = tx\<lparr>t_id := or_default (t_id tx) (JStr uuid)\<rparr>
           in if \<not> Transaction_not_null r then Inl IntegrityError
              else if t_id r \<in> set (map t_id (transactions s)) then Inl IntegrityError
              else Inr (s\<lparr>transactions := transactions s @ [r]\<rparr>)))"

text \<open>
  \<^verbatim>\<open>db.session.delete(loan)\<close> with the relationship's
  \<^verbatim>\<open>cascade="all, delete-orphan"\<close>: the unit of work loads \<^verbatim>\<open>loan.payments\<close>,
  deletes those rows and then the loan's row.
\<close>

definition session_delete_Loan :: "Loan \<Rightarrow> db \<Rightarrow> db" where
  "session_delete_Loan l s =
     s\<lparr>payments := filter (\<lambda>p. p \<notin> set (Loan_payments s l)) (payments s),
       loans := filter (\<lambda>r. l_id r \<noteq> l_id l) (loans s)\<rparr>"

definition session_delete_Transaction :: "Transaction \<Rightarrow> db \<Rightarrow> db" where
  "session_delete_Transaction t s =
     s\<lparr>transactions := filter (\<lambda>r. t_id r \<noteq> t_id t) (transactions s)\<rparr>"

section \<open>The routes\<close>

text \<open>
  Every handler takes the store, the value \<^verbatim>\<open>uuid.uuid4()\<close> would give where a row
  can be inserted, and what it reads of the request. It returns the response, or the
  exception it does not catch, and the store after the request: a request that raises
  commits nothing.
\<close>

type_synonym outcome = "(exn + response) \<times> db"

subsection \<open>\<^verbatim>\<open>GET /api/sync\<close>\<close>

text \<open>\<^verbatim>\<open>if not user_id\<close> holds for None and for the empty string.\<close>

definition get_user_data :: "db \<Rightarrow> string option \<Rightarrow> outcome" where
  "get_user_data s user_id =
     (if user_id = None \<or> user_id = Some []
      then (Inr (Response 400 (JObj [(''error'', JStr ''User ID required'')])), s)
      else
        (let ls = filter (\<lambda>l. l_user_id l = user_id) (loans s);
             ts = filter (\<lambda>t. t_user_id t = user_id) (transactions s)
         in (Inr (Response 200
                    (JObj [(''loans'', JArr (map (Loan_to_dict s) ls)),
                           (''transactions'', JArr (map Transaction_to_dict ts))])), s)))"

subsection \<open>\<^verbatim>\<open>POST /api/loans\<close>\<close>

text \<open>\<^verbatim>\<open>Loan(id=k, user_id=u)\<close>: the other attributes are not set.\<close>

definition new_Loan :: "json \<Rightarrow> string option \<Rightarrow> Loan" where
  "new_Loan k u =
     \<lparr>l_id = k, l_user_id = u, l_name = JNull, l_lender = JNull, l_principal = JNull,
      l_interest_rate = JNull, l_start_date = None, l_emi_amount = JNull,
      l_tenure_months = JNull, l_initial_paid_months = JNull, l_due_date_day = JNull,
      l_type = JNull, l_status = JNull, l_is_foreclosed = JNull\<rparr>"

text \<open>
  Line 132: \<^verbatim>\<open>datetime.strptime(data.get('startDate').split('T')[0], '%Y-%m-%d').date()\<close>.
  Only a string has \<^verbatim>\<open>split\<close>.
\<close>

definition parse_startDate :: "json \<Rightarrow> exn + date" where
  "parse_startDate v =
     (case v of JStr x \<Rightarrow> strptime_ymd (split_T_first x) | _ \<Rightarrow> Inl AttributeError)"

text \<open>
  Lines 128 to 139: the twelve assignments. When line 132 raises, the assignments made
  before it are never committed, so the model parses the date first.
\<close>

definition assign_fields :: "payload \<Rightarrow> date \<Rightarrow> Loan \<Rightarrow> Loan" where
  "assign_fields data d loan =
     loan\<lparr>l_name := dict_get data ''name'',
          l_lender := dict_get data ''lender'',
          l_principal := dict_get data ''principal'',
          l_interest_rate := dict_get data ''interestRate'',
          l_start_date := Some d,
          l_emi_amount := dict_get data ''emiAmount'',
          l_tenure_months := dict_get data ''tenureMonths'',
          l_initial_paid_months := dict_get_default data ''initialPaidMonths'' (JNum 0),
          l_due_date_day := dict_get data ''dueDateDay'',
          l_type := dict_get data ''type'',
          l_status := dict_get_default data ''status'' (JStr ''active''),
          l_is_foreclosed := dict_get_default data ''isForeclosed'' (JBool False)\<rparr>"

definition save_loan :: "db \<Rightarrow> string \<Rightarrow> string option \<Rightarrow> payload \<Rightarrow> outcome" where
  "save_loan s uuid user_id data =
     (let existing = query_get l_id (loans s) (dict_get data ''id'');
          loan = (case existing of
                    None \<Rightarrow> new_Loan (dict_get data ''id'') user_id
                  | Some l \<Rightarrow> l)
      in case parse_startDate (dict_get data ''startDate'') of
           Inl e \<Rightarrow> (Inl e, s)
         | Inr d \<Rightarrow>
             (let loan = assign_fields data d loan;
                  loan = (if data ''payments'' \<noteq> None then loan else loan)
              in case (case existing of
                         None \<Rightarrow> insert_Loan uuid loan s
                       | Some _ \<Rightarrow> update_Loan loan s) of
                   Inl e \<Rightarrow> (Inl e, s)
                 | Inr (row, s') \<Rightarrow> (Inr (Response 200 (Loan_to_dict s' row)), s')))"

subsection \<open>\<^verbatim>\<open>DELETE /api/loans/<loan_id>\<close>\<close>

definition delete_loan :: "db \<Rightarrow> string \<Rightarrow> outcome" where
  "delete_loan s loan_id =
     (case query_get l_id (loans s) (JStr loan_id) of
        Some loan \<Rightarrow>
          (Inr (Response 200 (JObj [(''message'', JStr ''Deleted successfully'')])),
           session_delete_Loan loan s)
      | None \<Rightarrow> (Inr (Response 404 (JObj [(''error'', JStr ''Loan not found'')])), s))"

subsection \<open>\<^verbatim>\<open>POST /api/payments\<close>\<close>

text \<open>\<^verbatim>\<open>datetime.strptime(v, '%Y-%m-%d')\<close>: an argument that is not a string is a TypeError.\<close>

definition strptime_arg :: "json \<Rightarrow> exn + date" where
  "strptime_arg v = (case v of JStr x \<Rightarrow> strptime_ymd x | _ \<Rightarrow> Inl TypeError)"

text \<open>
  The loan the handler loads on line 178 is not used: the balance check of the comment
  on line 179 is not written.
\<close>

definition add_payment :: "db \<Rightarrow> string \<Rightarrow> payload \<Rightarrow> outcome" where
  "add_payment s uuid data =
     (let loan_id = dict_get data ''loanId''
      in case strptime_arg (dict_get data ''date'') of
           Inl e \<Rightarrow> (Inl e, s)
         | Inr d \<Rightarrow>
             (let payment = \<lparr>p_id = dict_get data ''id'', p_loan_id = loan_id,
                             p_date = Some d, p_amount = dict_get data ''amount'',
                             p_note = dict_get data ''note''\<rparr>
              in case insert_Payment uuid payment s of
                   Inl e \<Rightarrow> (Inl e, s)
                 | Inr (row, s') \<Rightarrow>
                     (let loan = query_get l_id (loans s') loan_id
                      in (Inr (Response 200 (Payment_to_dict row)), s'))))"

subsection \<open>\<^verbatim>\<open>POST /api/transactions\<close>\<close>

text \<open>
  The response serializes \<open>tx\<close>, the object the handler built, not the row the merge
  wrote.
\<close>

definition save_transaction :: "db \<Rightarrow> string \<Rightarrow> string option \<Rightarrow> payload \<Rightarrow> outcome" where
  "save_transaction s uuid user_id data =
     (case strptime_arg (dict_get data ''date'') of
        Inl e \<Rightarrow> (Inl e, s)
      | Inr d \<Rightarrow>
          (let tx = \<lparr>t_id = dict_get data ''id'', t_user_id = user_id, t_date = Some d,
                     t_amount = dict_get data ''amount'', t_type = dict_get data ''type'',
                     t_category = dict_get data ''category'',
                     t_description = dict_get data ''description''\<rparr>
           in case session_merge uuid tx s of
                Inl e \<Rightarrow> (Inl e, s)
              | Inr s' \<Rightarrow> (Inr (Response 200 (Transaction_to_dict tx)), s')))"

subsection \<open>\<^verbatim>\<open>DELETE /api/transactions/<tx_id>\<close>\<close>

definition delete_transaction :: "db \<Rightarrow> string \<Rightarrow> outcome" where
  "delete_transaction s tx_id =
     (case query_get t_id (transactions s) (JStr tx_id) of
        Some tx \<Rightarrow>
          (Inr (Response 200 (JObj [(''message'', JStr ''Deleted'')])),
           session_delete_Transaction tx s)
      | None \<Rightarrow> (Inr (Response 404 (JObj [(''error'', JStr ''Not found'')])), s))"

section \<open>Reading a sync response\<close>

text \<open>
  What a client sees in the body of \<^verbatim>\<open>GET /api/sync\<close>: the loan objects, the
  transaction objects, and the payment objects embedded in the loans of a given id.
\<close>

definition response_loans :: "json \<Rightarrow> json list" where
  "response_loans body = (case member body ''loans'' of Some (JArr ds) \<Rightarrow> ds | _ \<Rightarrow> [])"

definition response_transactions :: "json \<Rightarrow> json list" where
  "response_transactions body =
     (case member body ''transactions'' of Some (JArr ds) \<Rightarrow> ds | _ \<Rightarrow> [])"

definition embedded_payments :: "json \<Rightarrow> json list" where
  "embedded_payments d = (case member d ''payments'' of Some (JArr ps) \<Rightarrow> ps | _ \<Rightarrow> [])"

definition response_payments_of :: "json \<Rightarrow> json \<Rightarrow> json list" where
  "response_payments_of body k =
     concat (map embedded_payments
       (filter (\<lambda>d. member d ''id'' = Some k) (response_loans body)))"

section \<open>A store and requests to run the handlers on\<close>

definition ex_loan :: Loan where
  "ex_loan =
     \<lparr>l_id = JStr ''L1'', l_user_id = Some ''A'', l_name = JStr ''Car'',
      l_lender = JStr ''Bank'', l_principal = JNum 1000, l_interest_rate = JNum 9,
      l_start_date = Some \<lparr>year = 2023, month = 1, day = 31\<rparr>, l_emi_amount = JNum 100,
      l_tenure_months = JNum 12, l_initial_paid_months = JNum 2, l_due_date_day = JNum 5,
      l_type = JStr ''auto'', l_status = JStr ''active'', l_is_foreclosed = JBool False\<rparr>"

definition ex_payment :: Payment where
  "ex_payment =
     \<lparr>p_id = JStr ''P1'', p_loan_id = JStr ''L1'',
      p_date = Some \<lparr>year = 2023, month = 2, day = 5\<rparr>, p_amount = JNum 100,
      p_note = JNull\<rparr>"

definition ex_transaction :: Transaction where
  "ex_transaction =
     \<lparr>t_id = JStr ''T1'', t_user_id = Some ''A'',
      t_date = Some \<lparr>year = 2023, month = 3, day = 1\<rparr>, t_amount = JNum 250,
      t_type = JStr ''expense'', t_category = JStr ''food'', t_description = JNull\<rparr>"

text \<open>
  Two users: \<open>A\<close> owns loan \<open>L1\<close>, with the payments \<open>P1\<close> and \<open>P2\<close>, and
  transaction \<open>T1\<close>; \<open>B\<close> owns loan \<open>L2\<close>, with the payment \<open>P3\<close>, and transaction
  \<open>T2\<close>.
\<close>

definition ex_db :: db where
  "ex_db =
     \<lparr>loans = [ex_loan, ex_loan\<lparr>l_id := JStr ''L2'', l_user_id := Some ''B''\<rparr>],
      payments = [ex_payment, ex_payment\<lparr>p_id := JStr ''P2''\<rparr>,
                  ex_payment\<lparr>p_id := JStr ''P3'', p_loan_id := JStr ''L2''\<rparr>],
      transactions = [ex_transaction,
                      ex_transaction\<lparr>t_id := JStr ''T2'', t_user_id := Some ''B''\<rparr>],
      fk_enforced = True\<rparr>"

definition ex_payment_data :: payload where
  "ex_payment_data =
     [''id'' \<mapsto> JStr ''P4'', ''loanId'' \<mapsto> JStr ''L1'', ''date'' \<mapsto> JStr ''2024-03-15'',
      ''amount'' \<mapsto> JNum 1000]"

definition ex_loan_data :: payload where
  "ex_loan_data =
     [''id'' \<mapsto> JStr ''L1'', ''name'' \<mapsto> JStr ''Car loan'', ''principal'' \<mapsto> JNum 1200,
      ''startDate'' \<mapsto> JStr ''2024-03-15T00:00:00Z'', ''emiAmount'' \<mapsto> JNum 110,
      ''payments'' \<mapsto> JArr [JObj [(''id'', JStr ''P9''), (''amount'', JNum 5)]]]"



definition ex_null_status_data :: payload where
  "ex_null_status_data =
     [''id'' \<mapsto> JStr ''L5'', ''name'' \<mapsto> JStr ''Bike'', ''principal'' \<mapsto> JNum 500,
      ''startDate'' \<mapsto> JStr ''2024-03-15'', ''status'' \<mapsto> JNull]"

definition ex_new_loan_data :: payload where
  "ex_new_loan_data = ex_loan_data(''id'' \<mapsto> JStr ''L7'')"

text \<open>The body of a response, for reading what a handler answered.\<close>

definition response_body :: "outcome \<Rightarrow> json" where
  "response_body out = (case fst out of Inr (Response st body) \<Rightarrow> body | Inl e \<Rightarrow> JNull)"

definition empty_db :: db where
  "empty_db = \<lparr>loans = [], payments = [], transactions = [], fk_enforced = True\<rparr>"

section \<open>Facts about dates\<close>

lemma digit_of_digit_char [simp]: "n < 10 \<Longrightarrow> digit_of (digit_char n) = Some n"
  by (simp add: digit_of_def digit_char_def)


lemma digit_of_dash [simp]: "digit_of (CHR ''-'') = None" "digit_of (CHR '' '') = None"
  "digit_of (CHR ''T'') = None"
  by (simp_all add: digit_of_def)

lemma digit_char_neq [simp]:
  assumes "n < 10"
  shows "digit_char n \<noteq> CHR ''-''" "digit_char n \<noteq> CHR '' ''" "digit_char n \<noteq> CHR ''T''"
  using digit_of_digit_char [OF assms] by (auto simp del: digit_of_digit_char)











lemma re_lit_simps [simp]:
  "re_lit c (c # r) = [r]" "a \<noteq> c \<Longrightarrow> re_lit c (a # r) = []" "re_lit c [] = []"
  by (simp_all add: re_lit_def)

lemma re_digit1_digit [simp]:
  "n < 10 \<Longrightarrow> re_digit1 lo hi (digit_char n # r) = (if lo \<le> n \<and> n \<le> hi then [(n, r)] else [])"
  by (simp add: re_digit1_def)

lemma re_digit2_digits [simp]:
  "a < 10 \<Longrightarrow> b < 10 \<Longrightarrow>
   re_digit2 l1 h1 l2 h2 (digit_char a # digit_char b # r) =
     (if l1 \<le> a \<and> a \<le> h1 \<and> l2 \<le> b \<and> b \<le> h2 then [(10 * a + b, r)] else [])"
  by (auto simp: re_digit2_def)









section \<open>Facts about the session operations\<close>

lemma query_get_SomeD:
  "query_get pk rows k = Some r \<Longrightarrow> r \<in> set rows \<and> pk r = k \<and> k \<noteq> JNull"
  by (auto simp: query_get_def find_Some_iff split: if_splits)

lemma query_get_None_iff:
  "k \<noteq> JNull \<Longrightarrow> query_get pk rows k = None \<longleftrightarrow> k \<notin> pk ` set rows"
  by (auto simp: query_get_def find_None_iff)

lemma query_get_filter_out [simp]:
  "query_get pk (filter (\<lambda>r. pk r \<noteq> k) rows) k = None"
  by (simp add: query_get_def find_None_iff)

lemma Loan_to_dict_id [simp]: "member (Loan_to_dict s l) ''id'' = Some (l_id l)"
  by (simp add: Loan_to_dict_def)

lemma Transaction_to_dict_id [simp]: "member (Transaction_to_dict t) ''id'' = Some (t_id t)"
  by (simp add: Transaction_to_dict_def)

lemma sync_loans:
  "get_user_data s u = (Inr (Response st body), s') \<Longrightarrow>
   response_loans body =
     (if u = None \<or> u = Some [] then []
      else map (Loan_to_dict s) (filter (\<lambda>l. l_user_id l = u) (loans s)))"
  by (auto simp: get_user_data_def response_loans_def Let_def split: if_splits)

lemma sync_transactions:
  "get_user_data s u = (Inr (Response st body), s') \<Longrightarrow>
   response_transactions body =
     (if u = None \<or> u = Some [] then []
      else map Transaction_to_dict (filter (\<lambda>t. t_user_id t = u) (transactions s)))"
  by (auto simp: get_user_data_def response_transactions_def Let_def split: if_splits)

lemma pk_unique_row:
  "distinct (map pk rows) \<Longrightarrow> r \<in> set rows \<Longrightarrow> r' \<in> set rows \<Longrightarrow> pk r = pk r' \<Longrightarrow> r = r'"
  by (meson distinct_map inj_on_def)

lemma query_get_replaced:
  "k \<noteq> JNull \<Longrightarrow> k \<in> pk ` set rows \<Longrightarrow> pk new = k \<Longrightarrow>
   query_get pk (map (\<lambda>r. if pk r = k then new else r) rows) k = Some new"
  by (induction rows) (auto simp: query_get_def)

lemma replace_keeps_pk:
  "pk new = k \<Longrightarrow> map pk (map (\<lambda>r. if pk r = k then new else r) rows) = map pk rows"
  by (induction rows) auto

lemma replace_unique:
  "distinct (map pk rows) \<Longrightarrow> old \<in> set rows \<Longrightarrow> pk old = k \<Longrightarrow>
   map (\<lambda>r. if pk r = k then new else r) rows = map (\<lambda>r. if r = old then new else r) rows"
  by (rule map_cong) (auto dest: pk_unique_row)

lemma assign_fields_keys [simp]:
  "l_id (assign_fields data d l) = l_id l" "l_user_id (assign_fields data d l) = l_user_id l"
  by (simp_all add: assign_fields_def)

lemma db_ok_ex_db: "db_ok ex_db"
  by (simp add: db_ok_def pk_ok_def ex_db_def ex_loan_def ex_payment_def ex_transaction_def)

lemma replace_absent:
  "k \<notin> pk ` set rows \<Longrightarrow> map (\<lambda>r. if pk r = k then new else r) rows = rows"
  by (induction rows) auto

lemma filter_absent:
  "k \<notin> pk ` set rows \<Longrightarrow> filter (\<lambda>r. pk r = k) rows = []"
  by (induction rows) auto

lemma filter_pk_replaced:
  "distinct (map pk rows) \<Longrightarrow> k \<in> pk ` set rows \<Longrightarrow> pk new = k \<Longrightarrow>
   filter (\<lambda>r. pk r = k) (map (\<lambda>r. if pk r = k then new else r) rows) = [new]"
proof (induction rows)
  case Nil
  then show ?case by simp
next
  case (Cons a rows)
  show ?case
  proof (cases "pk a = k")
    case True
    with Cons.prems have "k \<notin> pk ` set rows" by auto
    then show ?thesis
      using True Cons.prems(3) by (simp add: replace_absent filter_absent)
  next
    case False
    with Cons show ?thesis by auto
  qed
qed



lemma query_get_cases:
  "k \<noteq> JNull \<Longrightarrow>
   (k \<notin> pk ` set rows \<and> query_get pk rows k = None)
   \<or> (k \<in> pk ` set rows \<and> (\<exists>r. query_get pk rows k = Some r \<and> r \<in> set rows \<and> pk r = k))"
  using query_get_None_iff [of k pk rows] query_get_SomeD [of pk rows k]
  by (cases "query_get pk rows k") auto

lemma or_default_id [simp]: "v \<noteq> JNull \<Longrightarrow> or_default v d = v"
  by (simp add: or_default_def)



lemma save_loan_bad_date:
  "parse_startDate (dict_get data ''startDate'') = Inl e \<Longrightarrow>
   save_loan s uuid user_id data = (Inl e, s)"
  by (simp add: save_loan_def Let_def)

lemma save_loan_update:
  assumes "query_get l_id (loans s) (dict_get data ''id'') = Some old"
    and "parse_startDate (dict_get data ''startDate'') = Inr d"
  shows "save_loan s uuid user_id data =
    (if dict_get data ''name'' = JNull \<or> dict_get data ''principal'' = JNull
     then (Inl IntegrityError, s)
     else (Inr (Response 200 (Loan_to_dict s (assign_fields data d old))),
           s\<lparr>loans := map (\<lambda>r. if l_id r = dict_get data ''id'' then assign_fields data d old else r)
                        (loans s)\<rparr>))"
proof -
  from assms(1) have "l_id old = dict_get data ''id''" by (auto dest: query_get_SomeD)
  moreover have "l_name (assign_fields data d old) = dict_get data ''name''"
    "l_principal (assign_fields data d old) = dict_get data ''principal''"
    by (simp_all add: assign_fields_def)
  ultimately show ?thesis
    using assms by (simp add: save_loan_def update_Loan_def Let_def Loan_to_dict_def Loan_payments_def)
qed

lemma save_loan_insert:
  assumes "query_get l_id (loans s) (dict_get data ''id'') = None"
    and "parse_startDate (dict_get data ''startDate'') = Inr d"
  shows "save_loan s uuid user_id data =
    (let row = Loan_defaults uuid (assign_fields data d (new_Loan (dict_get data ''id'') user_id))
     in if \<not> Loan_not_null row \<or> l_id row \<in> l_id ` set (loans s)
        then (Inl IntegrityError, s)
        else (Inr (Response 200 (Loan_to_dict s row)), s\<lparr>loans := loans s @ [row]\<rparr>))"
  using assms
  by (simp add: save_loan_def insert_Loan_def Let_def Loan_to_dict_def Loan_payments_def)





lemma assign_fields_row:
  "assign_fields data d old =
     \<lparr>l_id = l_id old, l_user_id = l_user_id old, l_name = dict_get data ''name'',
      l_lender = dict_get data ''lender'', l_principal = dict_get data ''principal'',
      l_interest_rate = dict_get data ''interestRate'', l_start_date = Some d,
      l_emi_amount = dict_get data ''emiAmount'',
      l_tenure_months = dict_get data ''tenureMonths'',
      l_initial_paid_months = dict_get_default data ''initialPaidMonths'' (JNum 0),
      l_due_date_day = dict_get data ''dueDateDay'', l_type = dict_get data ''type'',
      l_status = dict_get_default data ''status'' (JStr ''active''),
      l_is_foreclosed = dict_get_default data ''isForeclosed'' (JBool False)\<rparr>"
  by (cases old) (simp add: assign_fields_def)

lemma assign_fields_idem [simp]:
  "assign_fields data d (assign_fields data d l) = assign_fields data d l"
  by (simp add: assign_fields_row)

lemma Loan_defaults_keys:
  "l_id l \<noteq> JNull \<Longrightarrow> l_id (Loan_defaults uuid l) = l_id l"
  "l_user_id (Loan_defaults uuid l) = l_user_id l"
  "l_name (Loan_defaults uuid l) = l_name l"
  "l_principal (Loan_defaults uuid l) = l_principal l"
  "l_start_date (Loan_defaults uuid l) = l_start_date l"
  by (simp_all add: Loan_defaults_def)

lemma length_filter_pk:
  "distinct (map pk rows) \<Longrightarrow> k \<in> pk ` set rows \<Longrightarrow> length (filter (\<lambda>r. pk r = k) rows) = 1"
proof (induction rows)
  case Nil
  then show ?case by simp
next
  case (Cons a rows)
  show ?case
  proof (cases "pk a = k")
    case True
    with Cons.prems have "k \<notin> pk ` set rows" by auto
    with True show ?thesis by (simp add: filter_absent)
  next
    case False
    with Cons show ?thesis by auto
  qed
qed

lemma replace_same:
  "distinct (map pk rows) \<Longrightarrow> row \<in> set rows \<Longrightarrow>
   map (\<lambda>r. if pk r = pk row then row else r) rows = rows"
  by (rule map_idI) (auto dest: pk_unique_row)

lemma query_get_appended:
  "k \<noteq> JNull \<Longrightarrow> k \<notin> pk ` set rows \<Longrightarrow> pk row = k \<Longrightarrow> query_get pk (rows @ [row]) k = Some row"
  by (induction rows) (auto simp: query_get_def)

lemma save_loan_accepted:
  assumes ok: "db_ok s" and k: "dict_get data ''id'' \<noteq> JNull"
    and run: "save_loan s uuid user_id data = (Inr r, s')"
  shows "\<exists>d row. parse_startDate (dict_get data ''startDate'') = Inr d
     \<and> dict_get data ''name'' \<noteq> JNull \<and> dict_get data ''principal'' \<noteq> JNull
     \<and> query_get l_id (loans s') (dict_get data ''id'') = Some row
     \<and> r = Response 200 (Loan_to_dict s row)
     \<and> payments s' = payments s \<and> db_ok s'
     \<and> (if dict_get data ''id'' \<in> l_id ` set (loans s)
         then assign_fields data d row = row \<and> length (loans s') = length (loans s)
         else row = Loan_defaults uuid (assign_fields data d (new_Loan (dict_get data ''id'') user_id))
              \<and> loans s' = loans s @ [row])"
proof -
  from ok have pk: "pk_ok (map l_id (loans s))" by (simp add: db_ok_def)
  then have dist: "distinct (map l_id (loans s))" by (simp add: pk_ok_def)
  from run obtain d where d: "parse_startDate (dict_get data ''startDate'') = Inr d"
    by (cases "parse_startDate (dict_get data ''startDate'')") (auto simp: save_loan_bad_date)
  from query_get_cases [OF k, of l_id "loans s"] show ?thesis
  proof (elim disjE conjE exE)
    assume new: "dict_get data ''id'' \<notin> l_id ` set (loans s)"
      and q: "query_get l_id (loans s) (dict_get data ''id'') = None"
    define row where
      "row = Loan_defaults uuid (assign_fields data d (new_Loan (dict_get data ''id'') user_id))"
    have id: "l_id row = dict_get data ''id''"
      using k by (simp add: row_def Loan_defaults_keys new_Loan_def)
    from run have nn: "Loan_not_null row" and s': "s' = s\<lparr>loans := loans s @ [row]\<rparr>"
      and r: "r = Response 200 (Loan_to_dict s row)"
      unfolding save_loan_insert [OF q d] row_def [symmetric]
      by (auto simp: Let_def split: if_splits)
    from nn have "dict_get data ''name'' \<noteq> JNull" "dict_get data ''principal'' \<noteq> JNull"
      by (simp_all add: Loan_not_null_def row_def Loan_defaults_keys assign_fields_row)
    moreover have "query_get l_id (loans s') (dict_get data ''id'') = Some row"
      unfolding s' using k new id by (simp add: query_get_appended)
    moreover have "db_ok s'"
      using ok new k id unfolding s' by (auto simp: db_ok_def pk_ok_def)
    ultimately show ?thesis
      using d r new s' unfolding row_def by auto
  next
    fix old
    assume pres: "dict_get data ''id'' \<in> l_id ` set (loans s)"
      and q: "query_get l_id (loans s) (dict_get data ''id'') = Some old"
      and old: "old \<in> set (loans s)" "l_id old = dict_get data ''id''"
    define row where "row = assign_fields data d old"
    have id: "l_id row = dict_get data ''id''" using old by (simp add: row_def)
    from run have nn: "dict_get data ''name'' \<noteq> JNull" "dict_get data ''principal'' \<noteq> JNull"
      and s': "s' = s\<lparr>loans := map (\<lambda>r. if l_id r = dict_get data ''id'' then row else r) (loans s)\<rparr>"
      and r: "r = Response 200 (Loan_to_dict s row)"
      unfolding save_loan_update [OF q d] row_def [symmetric]
      by (auto split: if_splits)
    have keys: "map l_id (map (\<lambda>r. if l_id r = dict_get data ''id'' then row else r) (loans s))
        = map l_id (loans s)"
      using id by (rule replace_keeps_pk)
    have "query_get l_id (loans s') (dict_get data ''id'') = Some row"
      unfolding s' using query_get_replaced [OF k pres id] by simp
    moreover have "db_ok s'"
      unfolding s' db_ok_def using ok keys by (simp add: db_ok_def del: map_map)
    moreover have "assign_fields data d row = row" by (simp add: row_def)
    moreover have "length (loans s') = length (loans s)" by (simp add: s')
    ultimately show ?thesis
      using d r nn pres s' by auto
  qed
qed

lemma assign_after_defaults:
  assumes "k \<noteq> JNull" "data ''initialPaidMonths'' \<noteq> Some JNull" "data ''status'' \<noteq> Some JNull"
    "data ''isForeclosed'' \<noteq> Some JNull"
  shows "assign_fields data d (Loan_defaults uuid (assign_fields data d (new_Loan k u)))
     = Loan_defaults uuid (assign_fields data d (new_Loan k u))"
  using assms
  by (auto simp: assign_fields_row Loan_defaults_def or_default_def dict_get_default_def new_Loan_def
      split: option.splits)



lemma Loan_to_dict_startDate [simp]:
  "member (Loan_to_dict s l) ''startDate'' = Some (date_json (l_start_date l))"
  by (simp add: Loan_to_dict_def)



subsection \<open>The store invariant\<close>

text \<open>
  Unique, non-null primary keys hold in the empty store and after every request, so
  the theorems below may assume them of the store a request meets.
\<close>

lemma pk_ok_append:
  "pk_ok ks \<Longrightarrow> k \<noteq> JNull \<Longrightarrow> k \<notin> set ks \<Longrightarrow> pk_ok (ks @ [k])"
  by (simp add: pk_ok_def)

lemma pk_ok_filter: "pk_ok (map pk rows) \<Longrightarrow> pk_ok (map pk (filter P rows))"
  by (auto simp: pk_ok_def distinct_map_filter)

lemma or_default_not_null [simp]: "or_default v (JStr u) \<noteq> JNull"
  by (simp add: or_default_def)

lemma save_loan_keeps_db_ok:
  assumes "db_ok s"
  shows "db_ok (snd (save_loan s uuid user_id data))"
proof (cases "parse_startDate (dict_get data ''startDate'')")
  case (Inl e)
  with assms show ?thesis by (simp add: save_loan_bad_date)
next
  case (Inr d)
  show ?thesis
  proof (cases "query_get l_id (loans s) (dict_get data ''id'')")
    case None
    from assms show ?thesis
      unfolding save_loan_insert [OF None Inr]
      by (auto simp: Let_def db_ok_def Loan_defaults_def intro!: pk_ok_append)
  next
    case (Some old)
    then have id: "l_id (assign_fields data d old) = dict_get data ''id''"
      by (auto dest: query_get_SomeD)
    have "map l_id (map (\<lambda>r. if l_id r = dict_get data ''id'' then assign_fields data d old else r)
        (loans s)) = map l_id (loans s)"
      using id by (rule replace_keeps_pk)
    with assms show ?thesis
      unfolding save_loan_update [OF Some Inr] by (simp add: db_ok_def del: map_map)
  qed
qed

lemma add_payment_keeps_db_ok:
  assumes "db_ok s"
  shows "db_ok (snd (add_payment s uuid data))"
  using assms
  by (auto simp: add_payment_def insert_Payment_def Let_def db_ok_def
      split: sum.splits if_splits intro!: pk_ok_append)

lemma save_transaction_keeps_db_ok:
  assumes "db_ok s"
  shows "db_ok (snd (save_transaction s uuid user_id data))"
proof (cases "strptime_arg (dict_get data ''date'')")
  case (Inl e)
  with assms show ?thesis by (simp add: save_transaction_def)
next
  case (Inr d)
  define tx where "tx = \<lparr>t_id = dict_get data ''id'', t_user_id = user_id, t_date = Some d,
                     t_amount = dict_get data ''amount'', t_type = dict_get data ''type'',
                     t_category = dict_get data ''category'',
                     t_description = dict_get data ''description''\<rparr>"
  have keys: "map t_id (map (\<lambda>r. if t_id r = t_id tx then tx else r) (transactions s))
      = map t_id (transactions s)"
    by (rule replace_keeps_pk) simp
  have "db_ok s'" if "session_merge uuid tx s = Inr s'" for s'
    using that assms keys
    by (auto simp: session_merge_def Let_def db_ok_def simp del: map_map
        split: option.splits if_splits intro!: pk_ok_append)
  then show ?thesis
    using Inr assms
    by (cases "session_merge uuid tx s") (simp_all add: save_transaction_def tx_def Let_def)
qed

lemma delete_keeps_db_ok:
  assumes "db_ok s"
  shows "db_ok (snd (delete_loan s i))" "db_ok (snd (delete_transaction s i))"
  using assms
  by (auto simp: delete_loan_def delete_transaction_def session_delete_Loan_def
      session_delete_Transaction_def db_ok_def split: option.splits intro: pk_ok_filter)

lemma db_ok_empty_db: "db_ok empty_db"
  by (simp add: db_ok_def pk_ok_def empty_db_def)

section \<open>The claims\<close>

subsection \<open>C6: sync without a user id\<close>

text \<open>
  C6. A sync request with no \<^verbatim>\<open>userId\<close> parameter is answered with status 400 and
  the body \<^verbatim>\<open>{"error": "User ID required"}\<close>, which has no \<^verbatim>\<open>loans\<close> and no
  \<^verbatim>\<open>transactions\<close> member; the store is returned as it was, and the answer is the
  same for every store, so nothing stored is read back.
\<close>

theorem sync_without_userId:
  "get_user_data s None =
     (Inr (Response 400 (JObj [(''error'', JStr ''User ID required'')])), s)
   \<and> member (JObj [(''error'', JStr ''User ID required'')]) ''loans'' = None
   \<and> member (JObj [(''error'', JStr ''User ID required'')]) ''transactions'' = None
   \<and> fst (get_user_data s None) = fst (get_user_data s2 None)"
  by (simp add: get_user_data_def)

theorem sync_without_userId_witness:
  "get_user_data ex_db None =
     (Inr (Response 400 (JObj [(''error'', JStr ''User ID required'')])), ex_db)
   \<and> fst (get_user_data ex_db None) = fst (get_user_data empty_db None)"
  using sync_without_userId [of ex_db empty_db] by blast

subsection \<open>C5: deleting an id that exists, or does not\<close>

text \<open>
  C5. When no loan (no transaction) has the id of the request, \<^verbatim>\<open>delete_loan\<close>
  (\<^verbatim>\<open>delete_transaction\<close>) answers 404 with an error body and returns the store
  unchanged. When a row has the id, the handler answers 200 with its success message,
  and the table afterwards is the old one without the rows of that id.
\<close>

theorem delete_found_or_not:
  "(JStr i \<notin> l_id ` set (loans s) \<longrightarrow>
      delete_loan s i = (Inr (Response 404 (JObj [(''error'', JStr ''Loan not found'')])), s))
   \<and> (JStr i \<notin> t_id ` set (transactions s) \<longrightarrow>
      delete_transaction s i = (Inr (Response 404 (JObj [(''error'', JStr ''Not found'')])), s))
   \<and> (JStr i \<in> l_id ` set (loans s) \<longrightarrow>
      fst (delete_loan s i) =
        Inr (Response 200 (JObj [(''message'', JStr ''Deleted successfully'')]))
      \<and> loans (snd (delete_loan s i)) = filter (\<lambda>r. l_id r \<noteq> JStr i) (loans s)
      \<and> JStr i \<notin> l_id ` set (loans (snd (delete_loan s i))))
   \<and> (JStr i \<in> t_id ` set (transactions s) \<longrightarrow>
      fst (delete_transaction s i) = Inr (Response 200 (JObj [(''message'', JStr ''Deleted'')]))
      \<and> snd (delete_transaction s i) =
          s\<lparr>transactions := filter (\<lambda>r. t_id r \<noteq> JStr i) (transactions s)\<rparr>
      \<and> JStr i \<notin> t_id ` set (transactions (snd (delete_transaction s i))))"
proof -
  have a: "JStr i \<notin> l_id ` set (loans s) \<Longrightarrow> query_get l_id (loans s) (JStr i) = None"
    by (simp add: query_get_None_iff)
  have b: "JStr i \<notin> t_id ` set (transactions s) \<Longrightarrow>
      query_get t_id (transactions s) (JStr i) = None"
    by (simp add: query_get_None_iff)
  have c: "JStr i \<in> l_id ` set (loans s) \<Longrightarrow>
     \<exists>l. query_get l_id (loans s) (JStr i) = Some l \<and> l_id l = JStr i"
    using query_get_None_iff [of "JStr i" l_id "loans s"]
      query_get_SomeD [of l_id "loans s" "JStr i"]
    by (cases "query_get l_id (loans s) (JStr i)") auto
  have d: "JStr i \<in> t_id ` set (transactions s) \<Longrightarrow>
     \<exists>t. query_get t_id (transactions s) (JStr i) = Some t \<and> t_id t = JStr i"
    using query_get_None_iff [of "JStr i" t_id "transactions s"]
      query_get_SomeD [of t_id "transactions s" "JStr i"]
    by (cases "query_get t_id (transactions s) (JStr i)") auto
  show ?thesis
    using a b c d
    by (auto simp: delete_loan_def delete_transaction_def session_delete_Loan_def
        session_delete_Transaction_def)
qed

theorem delete_found_or_not_witness:
  "JStr ''L9'' \<notin> l_id ` set (loans ex_db)
   \<and> delete_loan ex_db ''L9'' =
       (Inr (Response 404 (JObj [(''error'', JStr ''Loan not found'')])), ex_db)
   \<and> JStr ''T9'' \<notin> t_id ` set (transactions ex_db)
   \<and> delete_transaction ex_db ''T9'' =
       (Inr (Response 404 (JObj [(''error'', JStr ''Not found'')])), ex_db)
   \<and> JStr ''L1'' \<in> l_id ` set (loans ex_db)
   \<and> fst (delete_loan ex_db ''L1'') =
       Inr (Response 200 (JObj [(''message'', JStr ''Deleted successfully'')]))
   \<and> map l_id (loans (snd (delete_loan ex_db ''L1''))) = [JStr ''L2'']
   \<and> JStr ''T1'' \<in> t_id ` set (transactions ex_db)
   \<and> fst (delete_transaction ex_db ''T1'') =
       Inr (Response 200 (JObj [(''message'', JStr ''Deleted'')]))
   \<and> map t_id (transactions (snd (delete_transaction ex_db ''T1''))) = [JStr ''T2'']"
  using delete_found_or_not [of "''L9''" ex_db] delete_found_or_not [of "''T9''" ex_db]
    delete_found_or_not [of "''L1''" ex_db] delete_found_or_not [of "''T1''" ex_db]
  by (simp add: ex_db_def ex_loan_def ex_transaction_def)

subsection \<open>C9: adding a payment leaves every loan as it was\<close>

text \<open>
  C9. Whatever the payload and the store, \<^verbatim>\<open>add_payment\<close> returns a store with the
  same loans (so the referenced loan keeps its status, its foreclosure flag and every
  other field, also when the payments reach the principal) and the same transactions.
  A request that raises changes nothing; a request that is answered appends exactly one
  payment row, the one it serializes, and changes nothing else.
\<close>

theorem add_payment_leaves_loans:
  assumes "add_payment s uuid data = (r, s')"
  shows "loans s' = loans s \<and> transactions s' = transactions s \<and> fk_enforced s' = fk_enforced s
    \<and> query_get l_id (loans s') (dict_get data ''loanId'') =
        query_get l_id (loans s) (dict_get data ''loanId'')
    \<and> (case r of
          Inl e \<Rightarrow> s' = s
        | Inr resp \<Rightarrow>
            \<exists>p. s' = s\<lparr>payments := payments s @ [p]\<rparr> \<and> p_loan_id p = dict_get data ''loanId''
              \<and> resp = Response 200 (Payment_to_dict p))"
  using assms
  by (auto simp: add_payment_def insert_Payment_def Let_def split: sum.splits if_splits)

theorem add_payment_leaves_loans_witness:
  "add_payment ex_db ''u4'' ex_payment_data =
     (Inr (Response 200 (JObj [(''id'', JStr ''P4''), (''date'', JStr ''2024-03-15''),
        (''amount'', JNum 1000), (''note'', JNull)])),
      ex_db\<lparr>payments := payments ex_db @
        [\<lparr>p_id = JStr ''P4'', p_loan_id = JStr ''L1'',
          p_date = Some \<lparr>year = 2024, month = 3, day = 15\<rparr>, p_amount = JNum 1000,
          p_note = JNull\<rparr>]\<rparr>)
   \<and> loans (snd (add_payment ex_db ''u4'' ex_payment_data)) = loans ex_db
   \<and> query_get l_id (loans ex_db) (JStr ''L1'') = Some ex_loan
   \<and> l_principal ex_loan = JNum 1000 \<and> l_status ex_loan = JStr ''active''"
proof -
  have e: "add_payment ex_db ''u4'' ex_payment_data =
     (Inr (Response 200 (JObj [(''id'', JStr ''P4''), (''date'', JStr ''2024-03-15''),
        (''amount'', JNum 1000), (''note'', JNull)])),
      ex_db\<lparr>payments := payments ex_db @
        [\<lparr>p_id = JStr ''P4'', p_loan_id = JStr ''L1'',
          p_date = Some \<lparr>year = 2024, month = 3, day = 15\<rparr>, p_amount = JNum 1000,
          p_note = JNull\<rparr>]\<rparr>)"
    by code_simp
  from add_payment_leaves_loans [OF e] have "loans (snd (add_payment ex_db ''u4'' ex_payment_data)) = loans ex_db"
    unfolding e by simp
  moreover have "query_get l_id (loans ex_db) (JStr ''L1'') = Some ex_loan"
    by (simp add: query_get_def ex_db_def ex_loan_def)
  ultimately show ?thesis
    using e by (simp add: ex_loan_def)
qed

subsection \<open>C10: a loan keeps the owner it was created with\<close>

text \<open>
  C10. When the id of a loan upsert names a stored loan, the store after the request has
  the same loan ids and the same owner for each of them, whatever \<^verbatim>\<open>userId\<close> the
  request carries; the loan of that id is still there and still has the old owner.
\<close>

theorem save_loan_keeps_owner:
  assumes ok: "db_ok s"
    and old: "query_get l_id (loans s) (dict_get data ''id'') = Some old"
    and run: "save_loan s uuid user_id data = (r, s')"
  shows "map l_id (loans s') = map l_id (loans s)
    \<and> map l_user_id (loans s') = map l_user_id (loans s)
    \<and> (\<exists>l'. query_get l_id (loans s') (dict_get data ''id'') = Some l'
          \<and> l_user_id l' = l_user_id old)"
proof (cases "s' = s")
  case True
  then show ?thesis using old by simp
next
  case False
  define k where "k = dict_get data ''id''"
  from old have mem: "old \<in> set (loans s)" and key: "l_id old = k" and nn: "k \<noteq> JNull"
    unfolding k_def by (auto dest: query_get_SomeD)
  from ok have dist: "distinct (map l_id (loans s))"
    by (simp add: db_ok_def pk_ok_def)
  from run False old obtain d where
    s': "s' = s\<lparr>loans := map (\<lambda>r. if l_id r = k then assign_fields data d old else r) (loans s)\<rparr>"
    by (auto simp: save_loan_def update_Loan_def Let_def k_def key
        split: sum.splits if_splits dest: query_get_SomeD)
  have same: "map (\<lambda>r. if l_id r = k then assign_fields data d old else r) (loans s)
     = map (\<lambda>r. if r = old then assign_fields data d old else r) (loans s)"
    using dist mem key by (rule replace_unique)
  have 1: "map l_id (loans s') = map l_id (loans s)"
    unfolding s' by (simp add: replace_keeps_pk key o_def)
  have 2: "map l_user_id (loans s') = map l_user_id (loans s)"
    unfolding s' using same by (simp add: o_def)
  have 3: "query_get l_id (loans s') k = Some (assign_fields data d old)"
    unfolding s'
    using query_get_replaced [of k l_id "loans s" "assign_fields data d old"] nn mem key
    by auto
  from 1 2 3 show ?thesis unfolding k_def by simp
qed

theorem save_loan_keeps_owner_witness:
  "db_ok ex_db
   \<and> query_get l_id (loans ex_db) (dict_get ex_loan_data ''id'') = Some ex_loan
   \<and> l_user_id ex_loan = Some ''A''
   \<and> map l_user_id (loans (snd (save_loan ex_db ''u5'' (Some ''B'') ex_loan_data)))
       = [Some ''A'', Some ''B'']
   \<and> map l_name (loans (snd (save_loan ex_db ''u5'' (Some ''B'') ex_loan_data)))
       = [JStr ''Car loan'', JStr ''Car'']"
proof -
  have old: "query_get l_id (loans ex_db) (dict_get ex_loan_data ''id'') = Some ex_loan"
    by (simp add: query_get_def dict_get_def ex_loan_data_def ex_db_def ex_loan_def)
  have run: "save_loan ex_db ''u5'' (Some ''B'') ex_loan_data =
       (fst (save_loan ex_db ''u5'' (Some ''B'') ex_loan_data),
        snd (save_loan ex_db ''u5'' (Some ''B'') ex_loan_data))"
    by simp
  have names: "map l_name (loans (snd (save_loan ex_db ''u5'' (Some ''B'') ex_loan_data)))
       = [JStr ''Car loan'', JStr ''Car'']"
    by code_simp
  from save_loan_keeps_owner [OF db_ok_ex_db old run]
  have "map l_user_id (loans (snd (save_loan ex_db ''u5'' (Some ''B'') ex_loan_data)))
      = map l_user_id (loans ex_db)"
    by simp
  then show ?thesis
    using db_ok_ex_db old names by (simp add: ex_db_def ex_loan_def)
qed

subsection \<open>C3: deleting a loan deletes its payments\<close>

text \<open>
  C3. When a loan has the id of the request, \<^verbatim>\<open>delete_loan\<close> leaves the payments
  table without the rows whose \<^verbatim>\<open>loan_id\<close> is that id, however many they were, and
  every later sync, for any user, has no loan object of that id and so no payment
  embedded under it.
\<close>

theorem delete_loan_cascades:
  assumes "JStr i \<in> l_id ` set (loans s)" and "delete_loan s i = (r, s')"
  shows "payments s' = filter (\<lambda>p. p_loan_id p \<noteq> JStr i) (payments s)
    \<and> (\<forall>p \<in> set (payments s'). p_loan_id p \<noteq> JStr i)
    \<and> length (payments s') + length (filter (\<lambda>p. p_loan_id p = JStr i) (payments s))
        = length (payments s)
    \<and> (\<forall>u st body s''. get_user_data s' u = (Inr (Response st body), s'') \<longrightarrow>
          response_payments_of body (JStr i) = []
          \<and> (\<forall>d \<in> set (response_loans body). member d ''id'' \<noteq> Some (JStr i)))"
proof -
  from assms(1) obtain l where l: "query_get l_id (loans s) (JStr i) = Some l" "l_id l = JStr i"
    using query_get_None_iff [of "JStr i" l_id "loans s"]
      query_get_SomeD [of l_id "loans s" "JStr i"]
    by (cases "query_get l_id (loans s) (JStr i)") auto
  with assms(2) have s': "s' = session_delete_Loan l s"
    by (simp add: delete_loan_def)
  have p: "payments s' = filter (\<lambda>p. p_loan_id p \<noteq> JStr i) (payments s)"
    unfolding s' session_delete_Loan_def Loan_payments_def using l(2)
    by (auto intro: filter_cong)
  have ls: "loans s' = filter (\<lambda>r. l_id r \<noteq> JStr i) (loans s)"
    unfolding s' session_delete_Loan_def using l(2) by simp
  have n: "length (payments s') + length (filter (\<lambda>p. p_loan_id p = JStr i) (payments s))
        = length (payments s)"
    unfolding p using sum_length_filter_compl [of "\<lambda>p. p_loan_id p = JStr i" "payments s"]
    by simp
  have sync: "response_payments_of body (JStr i) = []
          \<and> (\<forall>d \<in> set (response_loans body). member d ''id'' \<noteq> Some (JStr i))"
    if "get_user_data s' u = (Inr (Response st body), s'')" for u st body s''
  proof -
    have none: "\<forall>d \<in> set (response_loans body). member d ''id'' \<noteq> Some (JStr i)"
      unfolding sync_loans [OF that] ls by auto
    then have "filter (\<lambda>d. member d ''id'' = Some (JStr i)) (response_loans body) = []"
      by (simp add: filter_empty_conv)
    with none show ?thesis by (simp add: response_payments_of_def)
  qed
  from p n sync show ?thesis by auto
qed

theorem delete_loan_cascades_witness:
  "JStr ''L1'' \<in> l_id ` set (loans ex_db)
   \<and> map p_id (filter (\<lambda>p. p_loan_id p = JStr ''L1'') (payments ex_db)) = [JStr ''P1'', JStr ''P2'']
   \<and> map p_id (payments (snd (delete_loan ex_db ''L1''))) = [JStr ''P3'']
   \<and> response_payments_of
        (response_body (get_user_data (snd (delete_loan ex_db ''L1'')) (Some ''A'')))
        (JStr ''L1'') = []"
proof -
  have mem: "JStr ''L1'' \<in> l_id ` set (loans ex_db)"
    by (simp add: ex_db_def ex_loan_def)
  have run: "delete_loan ex_db ''L1'' = (fst (delete_loan ex_db ''L1''), snd (delete_loan ex_db ''L1''))"
    by simp
  note c = delete_loan_cascades [OF mem run]
  have sync: "get_user_data (snd (delete_loan ex_db ''L1'')) (Some ''A'') =
      (Inr (Response 200 (response_body (get_user_data (snd (delete_loan ex_db ''L1'')) (Some ''A'')))),
       snd (delete_loan ex_db ''L1''))"
    by (simp add: get_user_data_def response_body_def Let_def)
  from c have "\<forall>u st body s''.
      get_user_data (snd (delete_loan ex_db ''L1'')) u = (Inr (Response st body), s'') \<longrightarrow>
      response_payments_of body (JStr ''L1'') = []
      \<and> (\<forall>d \<in> set (response_loans body). member d ''id'' \<noteq> Some (JStr ''L1''))"
    by (elim conjE)
  with sync
  have 1: "response_payments_of
        (response_body (get_user_data (snd (delete_loan ex_db ''L1'')) (Some ''A'')))
        (JStr ''L1'') = []"
    by (elim allE impE) (assumption, elim conjE)
  from c have 2: "payments (snd (delete_loan ex_db ''L1'')) =
      filter (\<lambda>p. p_loan_id p \<noteq> JStr ''L1'') (payments ex_db)"
    by (elim conjE)
  have 3: "map p_id (filter (\<lambda>p. p_loan_id p = JStr ''L1'') (payments ex_db))
      = [JStr ''P1'', JStr ''P2'']"
    by (simp add: ex_db_def ex_payment_def)
  have 4: "map p_id (payments (snd (delete_loan ex_db ''L1''))) = [JStr ''P3'']"
    unfolding 2 by (simp add: ex_db_def ex_payment_def)
  show ?thesis by (intro conjI; fact mem 3 4 1)
qed

subsection \<open>C7: sync returns only the rows of the requested user\<close>

text \<open>
  C7. In a store with unique primary keys, the sync response for user \<open>b\<close> has no
  loan object with the id of a loan owned by another user \<open>a\<close>, and no transaction
  object with the id of a transaction owned by \<open>a\<close>.
\<close>

theorem sync_isolated_by_user:
  assumes ok: "db_ok s" and ne: "a \<noteq> b"
    and run: "get_user_data s (Some b) = (Inr (Response st body), s')"
  shows "(\<forall>l \<in> set (loans s). l_user_id l = Some a \<longrightarrow>
            (\<forall>d \<in> set (response_loans body). member d ''id'' \<noteq> Some (l_id l)))
    \<and> (\<forall>t \<in> set (transactions s). t_user_id t = Some a \<longrightarrow>
            (\<forall>d \<in> set (response_transactions body). member d ''id'' \<noteq> Some (t_id t)))"
proof -
  from ok have dl: "distinct (map l_id (loans s))" and dt: "distinct (map t_id (transactions s))"
    by (simp_all add: db_ok_def pk_ok_def)
  have "member d ''id'' \<noteq> Some (l_id l)"
    if "l \<in> set (loans s)" "l_user_id l = Some a" "d \<in> set (response_loans body)" for l d
  proof
    assume eq: "member d ''id'' = Some (l_id l)"
    from that(3) obtain l' where l': "l' \<in> set (loans s)" "l_user_id l' = Some b"
        "d = Loan_to_dict s l'"
      unfolding sync_loans [OF run] by (auto split: if_splits)
    with eq have "l_id l' = l_id l" by simp
    with dl l'(1) that(1) have "l' = l" by (rule pk_unique_row)
    with l'(2) that(2) ne show False by simp
  qed
  moreover have "member d ''id'' \<noteq> Some (t_id t)"
    if "t \<in> set (transactions s)" "t_user_id t = Some a" "d \<in> set (response_transactions body)"
    for t d
  proof
    assume eq: "member d ''id'' = Some (t_id t)"
    from that(3) obtain t' where t': "t' \<in> set (transactions s)" "t_user_id t' = Some b"
        "d = Transaction_to_dict t'"
      unfolding sync_transactions [OF run] by (auto split: if_splits)
    with eq have "t_id t' = t_id t" by simp
    with dt t'(1) that(1) have "t' = t" by (rule pk_unique_row)
    with t'(2) that(2) ne show False by simp
  qed
  ultimately show ?thesis by blast
qed

theorem sync_isolated_by_user_witness:
  "db_ok ex_db \<and> ''A'' \<noteq> ''B''
   \<and> ex_loan \<in> set (loans ex_db) \<and> l_user_id ex_loan = Some ''A''
   \<and> ex_transaction \<in> set (transactions ex_db) \<and> t_user_id ex_transaction = Some ''A''
   \<and> map (\<lambda>d. member d ''id'') (response_loans (response_body (get_user_data ex_db (Some ''B''))))
       = [Some (JStr ''L2'')]
   \<and> Some (l_id ex_loan) \<notin>
       set (map (\<lambda>d. member d ''id'')
         (response_loans (response_body (get_user_data ex_db (Some ''B'')))))
   \<and> Some (t_id ex_transaction) \<notin>
       set (map (\<lambda>d. member d ''id'')
         (response_transactions (response_body (get_user_data ex_db (Some ''B'')))))"
proof -
  have ne: "''A'' \<noteq> ''B''" by simp
  have sync: "get_user_data ex_db (Some ''B'') =
      (Inr (Response 200 (response_body (get_user_data ex_db (Some ''B'')))), ex_db)"
    by (simp add: get_user_data_def response_body_def Let_def)
  note iso = sync_isolated_by_user [OF db_ok_ex_db ne sync]
  have l: "ex_loan \<in> set (loans ex_db)" "l_user_id ex_loan = Some ''A''"
    and t: "ex_transaction \<in> set (transactions ex_db)" "t_user_id ex_transaction = Some ''A''"
    by (simp_all add: ex_db_def ex_loan_def ex_transaction_def)
  from iso l have "\<forall>d \<in> set (response_loans (response_body (get_user_data ex_db (Some ''B'')))).
      member d ''id'' \<noteq> Some (l_id ex_loan)"
    by (elim conjE ballE [of _ _ ex_loan]) simp_all
  then have 1: "Some (l_id ex_loan) \<notin>
       set (map (\<lambda>d. member d ''id'')
         (response_loans (response_body (get_user_data ex_db (Some ''B'')))))"
    by (auto simp: image_iff)
  from iso t have "\<forall>d \<in> set (response_transactions (response_body (get_user_data ex_db (Some ''B'')))).
      member d ''id'' \<noteq> Some (t_id ex_transaction)"
    by (elim conjE ballE [of _ _ ex_transaction]) simp_all
  then have 2: "Some (t_id ex_transaction) \<notin>
       set (map (\<lambda>d. member d ''id'')
         (response_transactions (response_body (get_user_data ex_db (Some ''B'')))))"
    by (auto simp: image_iff)
  have 3: "map (\<lambda>d. member d ''id'') (response_loans (response_body (get_user_data ex_db (Some ''B''))))
       = [Some (JStr ''L2'')]"
    by (simp add: get_user_data_def response_body_def response_loans_def Let_def ex_db_def
        ex_loan_def)
  show ?thesis by (intro conjI; fact db_ok_ex_db ne l t 1 2 3)
qed

subsection \<open>C2: a transaction upsert inserts or replaces, and sets the owner\<close>



subsection \<open>C1: what a loan upsert writes\<close>




subsection \<open>C4: posting a loan twice\<close>

text \<open>
  C4, as amended. In a store with unique primary keys, when a loan upsert with an id is
  answered, exactly one loan of that id is stored; posting the same payload again, with
  any \<^verbatim>\<open>userId\<close>, is answered too and leaves the same number of loans and exactly
  one of that id. When the id was already stored before the first post, or the payload
  does not carry an explicit null for \<^verbatim>\<open>initialPaidMonths\<close>, \<^verbatim>\<open>status\<close> or
  \<^verbatim>\<open>isForeclosed\<close>, the second post returns the response of the first and the
  store of the first.
\<close>

theorem save_loan_twice:
  assumes ok: "db_ok s" and k: "dict_get data ''id'' \<noteq> JNull"
    and run: "save_loan s uuid user_id data = (Inr r, s')"
  shows "(\<exists>r2 s2. save_loan s' uuid_b user_id_b data = (Inr r2, s2)
            \<and> length (filter (\<lambda>l. l_id l = dict_get data ''id'') (loans s2)) = 1
            \<and> length (loans s2) = length (loans s'))
    \<and> length (filter (\<lambda>l. l_id l = dict_get data ''id'') (loans s')) = 1
    \<and> (dict_get data ''id'' \<in> l_id ` set (loans s)
        \<or> (data ''initialPaidMonths'' \<noteq> Some JNull \<and> data ''status'' \<noteq> Some JNull
            \<and> data ''isForeclosed'' \<noteq> Some JNull)
       \<longrightarrow> save_loan s' uuid_b user_id_b data = (Inr r, s'))"
proof -
  from save_loan_accepted [OF ok k run] obtain d row where
    d: "parse_startDate (dict_get data ''startDate'') = Inr d"
    and nn: "dict_get data ''name'' \<noteq> JNull" "dict_get data ''principal'' \<noteq> JNull"
    and q: "query_get l_id (loans s') (dict_get data ''id'') = Some row"
    and r: "r = Response 200 (Loan_to_dict s row)"
    and pay: "payments s' = payments s" and ok': "db_ok s'"
    and shape: "if dict_get data ''id'' \<in> l_id ` set (loans s)
         then assign_fields data d row = row \<and> length (loans s') = length (loans s)
         else row = Loan_defaults uuid (assign_fields data d (new_Loan (dict_get data ''id'') user_id))
              \<and> loans s' = loans s @ [row]"
    by blast
  from ok' have dist: "distinct (map l_id (loans s'))" by (simp add: db_ok_def pk_ok_def)
  from q have mem: "row \<in> set (loans s')" and id: "l_id row = dict_get data ''id''"
    by (auto dest: query_get_SomeD)
  then have pres: "dict_get data ''id'' \<in> l_id ` set (loans s')" by force
  have same_dict: "Loan_to_dict s' x = Loan_to_dict s x" for x
    by (simp add: Loan_to_dict_def Loan_payments_def pay)
  define row2 where "row2 = assign_fields data d row"
  have id2: "l_id row2 = dict_get data ''id''" using id by (simp add: row2_def)
  have second: "save_loan s' uuid_b user_id_b data =
      (Inr (Response 200 (Loan_to_dict s row2)),
       s'\<lparr>loans := map (\<lambda>r. if l_id r = dict_get data ''id'' then row2 else r) (loans s')\<rparr>)"
    unfolding save_loan_update [OF q d] using nn by (simp add: row2_def same_dict)
  have one2: "length (filter (\<lambda>l. l_id l = dict_get data ''id'')
      (map (\<lambda>r. if l_id r = dict_get data ''id'' then row2 else r) (loans s'))) = 1"
    using filter_pk_replaced [OF dist pres id2] by simp
  have one: "length (filter (\<lambda>l. l_id l = dict_get data ''id'') (loans s')) = 1"
    using dist pres by (rule length_filter_pk)
  have idem: "save_loan s' uuid_b user_id_b data = (Inr r, s')"
    if c: "dict_get data ''id'' \<in> l_id ` set (loans s)
        \<or> (data ''initialPaidMonths'' \<noteq> Some JNull \<and> data ''status'' \<noteq> Some JNull
            \<and> data ''isForeclosed'' \<noteq> Some JNull)"
  proof -
    have "row2 = row"
    proof (cases "dict_get data ''id'' \<in> l_id ` set (loans s)")
      case True
      with shape show ?thesis by (simp add: row2_def)
    next
      case False
      with shape have "row = Loan_defaults uuid
          (assign_fields data d (new_Loan (dict_get data ''id'') user_id))"
        by simp
      moreover from c False have "data ''initialPaidMonths'' \<noteq> Some JNull"
          "data ''status'' \<noteq> Some JNull" "data ''isForeclosed'' \<noteq> Some JNull"
        by simp_all
      ultimately show ?thesis
        unfolding row2_def using assign_after_defaults [OF k] by simp
    qed
    note same = this
    have m: "map (\<lambda>r. if l_id r = dict_get data ''id'' then row2 else r) (loans s') = loans s'"
      unfolding same id [symmetric] using dist mem by (rule replace_same)
    show ?thesis
      unfolding second r m using same by simp
  qed
  from second one2 one idem show ?thesis by simp
qed

theorem save_loan_twice_witness:
  "db_ok ex_db \<and> dict_get ex_new_loan_data ''id'' = JStr ''L7''
   \<and> JStr ''L7'' \<notin> l_id ` set (loans ex_db)
   \<and> member (response_body (save_loan ex_db ''u9'' (Some ''B'') ex_new_loan_data)) ''name''
       = Some (JStr ''Car loan'')
   \<and> save_loan (snd (save_loan ex_db ''u9'' (Some ''B'') ex_new_loan_data)) ''u10'' (Some ''B'')
        ex_new_loan_data
       = save_loan ex_db ''u9'' (Some ''B'') ex_new_loan_data
   \<and> length (filter (\<lambda>l. l_id l = JStr ''L7'')
        (loans (snd (save_loan ex_db ''u9'' (Some ''B'') ex_new_loan_data)))) = 1"
proof -
  have k: "dict_get ex_new_loan_data ''id'' = JStr ''L7''"
    by (simp add: dict_get_def ex_new_loan_data_def)
  then have nn: "dict_get ex_new_loan_data ''id'' \<noteq> JNull" by simp
  have new: "JStr ''L7'' \<notin> l_id ` set (loans ex_db)"
    by (simp add: ex_db_def ex_loan_def)
  have run: "save_loan ex_db ''u9'' (Some ''B'') ex_new_loan_data =
      (Inr (Response 200 (response_body (save_loan ex_db ''u9'' (Some ''B'') ex_new_loan_data))),
       snd (save_loan ex_db ''u9'' (Some ''B'') ex_new_loan_data))"
    by code_simp
  have name: "member (response_body (save_loan ex_db ''u9'' (Some ''B'') ex_new_loan_data)) ''name''
       = Some (JStr ''Car loan'')"
    by code_simp
  have nulls: "dict_get ex_new_loan_data ''id'' \<in> l_id ` set (loans ex_db)
        \<or> (ex_new_loan_data ''initialPaidMonths'' \<noteq> Some JNull
            \<and> ex_new_loan_data ''status'' \<noteq> Some JNull
            \<and> ex_new_loan_data ''isForeclosed'' \<noteq> Some JNull)"
    by (simp add: ex_new_loan_data_def ex_loan_data_def)
  note th = save_loan_twice [OF db_ok_ex_db nn run, where uuid_b = "''u10''"
      and user_id_b = "Some ''B''"]
  from th [THEN conjunct2, THEN conjunct2, THEN mp, OF nulls] run
  have again: "save_loan (snd (save_loan ex_db ''u9'' (Some ''B'') ex_new_loan_data)) ''u10''
        (Some ''B'') ex_new_loan_data
       = save_loan ex_db ''u9'' (Some ''B'') ex_new_loan_data"
    by simp
  from th [THEN conjunct2, THEN conjunct1]
  have one: "length (filter (\<lambda>l. l_id l = JStr ''L7'')
        (loans (snd (save_loan ex_db ''u9'' (Some ''B'') ex_new_loan_data)))) = 1"
    unfolding k .
  show ?thesis by (intro conjI; fact db_ok_ex_db k new name again one)
qed

text \<open>
  C4 as the spec states it fails for a payload with \<^verbatim>\<open>"status": null\<close> and a new id.
  Line 138 assigns None. The first post inserts the row, the INSERT leaves the None
  out and the column default of line 37 stores \<^verbatim>\<open>active\<close>, which the first response
  shows. The second post finds the row, assigns None again, and the UPDATE stores NULL:
  the second response shows \<^verbatim>\<open>null\<close>.
\<close>

theorem save_loan_twice_counterexample:
  "ex_null_status_data ''status'' = Some JNull
   \<and> member (response_body (save_loan empty_db ''u1'' (Some ''A'') ex_null_status_data)) ''status''
       = Some (JStr ''active'')
   \<and> member (response_body
        (save_loan (snd (save_loan empty_db ''u1'' (Some ''A'') ex_null_status_data)) ''u2''
           (Some ''A'') ex_null_status_data)) ''status''
       = Some JNull"
proof -
  have 1: "ex_null_status_data ''status'' = Some JNull"
    by (simp add: ex_null_status_data_def)
  have 2: "member (response_body (save_loan empty_db ''u1'' (Some ''A'') ex_null_status_data))
      ''status'' = Some (JStr ''active'')"
    by code_simp
  have 3: "member (response_body
        (save_loan (snd (save_loan empty_db ''u1'' (Some ''A'') ex_null_status_data)) ''u2''
           (Some ''A'') ex_null_status_data)) ''status''
       = Some JNull"
    by code_simp
  show ?thesis by (intro conjI; fact 1 2 3)
qed

subsection \<open>C8: the start date of a loan comes back as its date part\<close>



end
